theory Spec2Isabelle
  imports
    Complex_Main
    "HOL-Library.Char_ord"
    "HOL-Library.List_Lexorder"
    "HOL-Library.Multiset"
    "HOL-Library.Word"
begin

section \<open>Python values exchanged between the functions of \<open>function_app.py\<close>\<close>

text \<open>
  Every payload of the application is a JSON-like Python value: the orchestrator input,
  the input and the result of each activity, the stored report. A \<open>dict\<close> is an
  association list (Python keeps insertion order; the first binding of a key is the one
  looked up). A Python \<open>float\<close> is modelled by the exact real number it approximates:
  \<open>int / int\<close> is Python's true division, kept here as the exact quotient.
\<close>

datatype json =
    JNull
  | JBool bool
  | JInt int
  | JFloat real
  | JStr string
  | JArr "json list"
  | JObj "(string \<times> json) list"

type_synonym pydict = "(string \<times> json) list"

text \<open>Python truthiness: \<open>None\<close>, \<open>False\<close>, \<open>0\<close>, \<open>0.0\<close>, \<open>""\<close>, \<open>[]\<close> and \<open>{}\<close> are falsy.\<close>

fun truthy :: "json \<Rightarrow> bool" where
  "truthy JNull = False"
| "truthy (JBool b) = b"
| "truthy (JInt i) = (i \<noteq> 0)"
| "truthy (JFloat r) = (r \<noteq> 0)"
| "truthy (JStr s) = (s \<noteq> [])"
| "truthy (JArr xs) = (xs \<noteq> [])"
| "truthy (JObj kvs) = (kvs \<noteq> [])"

text \<open>\<open>d.get(k)\<close>: the value, or \<open>None\<close> when the key is absent.\<close>

definition py_get :: "pydict \<Rightarrow> string \<Rightarrow> json" where
  "py_get d k = (case map_of d k of None \<Rightarrow> JNull | Some v \<Rightarrow> v)"

text \<open>\<open>d.get(k, dflt)\<close>: the default replaces an absent key only, not a present \<open>None\<close>.\<close>

definition py_get_default :: "pydict \<Rightarrow> string \<Rightarrow> json \<Rightarrow> json" where
  "py_get_default d k dflt = (case map_of d k of None \<Rightarrow> dflt | Some v \<Rightarrow> v)"

text \<open>\<open>a or b\<close>.\<close>

definition py_or :: "json \<Rightarrow> json \<Rightarrow> json" where
  "py_or a b = (if truthy a then a else b)"

text \<open>\<open>sep.join(parts)\<close>.\<close>

fun join :: "string \<Rightarrow> string list \<Rightarrow> string" where
  "join sep [] = []"
| "join sep [x] = x"
| "join sep (x # y # ys) = x @ sep @ join sep (y # ys)"

text \<open>The newline string \<open>"\n"\<close>.\<close>

definition nl :: string where
  "nl = [CHR 0x0A]"

section \<open>External collaborators\<close>

datatype error =
    StorageError string
  | PdfReadError string
  | ValueError string
  | AttributeError string
  | TypeError string

type_synonym bytes = "8 word list"

text \<open>
  What \<open>pypdf.PdfReader\<close> exposes of a document: per page the result of
  \<open>page.extract_text()\<close> (possibly \<open>None\<close>), and \<open>reader.metadata\<close> (possibly \<open>None\<close>).
\<close>

record pdf =
  pages :: "string option list"
  metadata :: "(string \<times> string) list option"

text \<open>
  The services and library calls the application relies on and does not define:
  \<^item> \<open>download_pdf_bytes\<close> is \<open>_download_pdf_bytes\<close>, the Blob Storage download, which
    raises when the blob cannot be read;
  \<^item> \<open>PdfReader\<close> parses the bytes and raises on a corrupt document;
  \<^item> \<open>utcnow\<close> is \<open>datetime.now(timezone.utc).isoformat().replace("+00:00", "Z")\<close>;
  \<^item> \<open>dumps\<close> is \<open>json.dumps(_, ensure_ascii=False)\<close>;
  \<^item> \<open>table_name\<close> is the setting \<open>ReportTableName\<close> (default \<open>PdfReports\<close>);
  \<^item> \<open>int_of_str\<close> is the builtin \<open>int\<close> on a string (\<open>None\<close> for \<open>ValueError\<close>);
  \<^item> \<open>email_re\<close>, \<open>phone_re\<close>, \<open>url_re\<close>, \<open>date_re\<close> are \<open>findall\<close> of the four compiled
    patterns of \<open>detect_sensitive_data\<close>.
\<close>

record env =
  download_pdf_bytes :: "json \<Rightarrow> json \<Rightarrow> error + bytes"
  PdfReader :: "bytes \<Rightarrow> error + pdf"
  utcnow :: string
  dumps :: "json \<Rightarrow> string"
  table_name :: string
  int_of_str :: "string \<Rightarrow> int option"
  email_re :: "string \<Rightarrow> string list"
  phone_re :: "string \<Rightarrow> string list"
  url_re :: "string \<Rightarrow> string list"
  date_re :: "string \<Rightarrow> string list"

section \<open>Activity \<open>generate_report\<close>\<close>

definition empty_text_result :: json where
  "empty_text_result = JObj [(''pages'', JArr []), (''full_text'', JStr '''')]"

definition empty_sensitive_result :: json where
  "empty_sensitive_result =
     JObj [(''emails'', JArr []), (''phones'', JArr []), (''urls'', JArr []), (''dates'', JArr [])]"

definition generate_report :: "env \<Rightarrow> pydict \<Rightarrow> pydict" where
  "generate_report E payload =
     [(''container'', py_get_default payload ''container'' (JStr ''pdfs'')),
      (''blob_name'', py_get_default payload ''blob_name'' (JStr '''')),
      (''generated_at_utc'', JStr (utcnow E)),
      (''extract_text'', py_or (py_get payload ''extract_text'') empty_text_result),
      (''extract_metadata'', py_or (py_get payload ''extract_metadata'') (JObj [])),
      (''analyze_statistics'', py_or (py_get payload ''analyze_statistics'') (JObj [])),
      (''detect_sensitive_data'',
         py_or (py_get payload ''detect_sensitive_data'') empty_sensitive_result)]"

section \<open>The pattern \<open>\b\w+\b\<close> of \<open>analyze_statistics\<close>\<close>

text \<open>
  \<open>\w\<close> on a \<open>str\<close> pattern is a Unicode alphanumeric or the underscore. A \<open>char\<close> of
  the model is a code point below 256, so the class is the ASCII letters, digits and
  underscore, and the alphanumerics of Latin-1.
\<close>

definition word_char :: "char \<Rightarrow> bool" where
  "word_char c =
     (let n = (of_char c :: nat) in
        (48 \<le> n \<and> n \<le> 57) \<or> (65 \<le> n \<and> n \<le> 90) \<or> n = 95 \<or> (97 \<le> n \<and> n \<le> 122) \<or>
        n = 170 \<or> n = 178 \<or> n = 179 \<or> n = 181 \<or> n = 185 \<or> n = 186 \<or>
        (188 \<le> n \<and> n \<le> 190) \<or> (192 \<le> n \<and> n \<le> 214) \<or> (216 \<le> n \<and> n \<le> 246) \<or>
        248 \<le> n)"

text \<open>
  \<open>\b\<close> at a position: the character before it (\<open>prev\<close> tells whether it is a \<open>\w\<close>;
  \<open>False\<close> at the start of the text) and the character after it (none at the end of the
  text) differ in being a \<open>\w\<close>.
\<close>

definition at_boundary :: "bool \<Rightarrow> string \<Rightarrow> bool" where
  "at_boundary prev rest = (prev \<noteq> (case rest of [] \<Rightarrow> False | c # _ \<Rightarrow> word_char c))"

text \<open>
  \<open>\w+\b\<close> at the head of a text: the number of characters matched. The quantifier is
  greedy: a longer match is tried first, and the match stops after the current character
  only when no longer one exists and a \<open>\b\<close> stands there.
\<close>

fun match_word :: "string \<Rightarrow> nat option" where
  "match_word [] = None"
| "match_word (c # cs) =
     (if word_char c then
        (case match_word cs of
           Some k \<Rightarrow> Some (Suc k)
         | None \<Rightarrow> if at_boundary True cs then Some 1 else None)
      else None)"

lemma match_word_bounds: "match_word s = Some k \<Longrightarrow> 0 < k \<and> k \<le> length s"
  by (induction s arbitrary: k) (auto split: if_splits option.splits)

text \<open>
  \<open>re.findall(r"\b\w+\b", text)\<close>, scanning from left to right: at each position the
  pattern is tried; after a match the scan resumes behind it, otherwise one character
  further.
\<close>

function findall_words :: "bool \<Rightarrow> string \<Rightarrow> string list" where
  "findall_words prev [] = []"
| "findall_words prev (c # cs) =
     (if at_boundary prev (c # cs) then
        (case match_word (c # cs) of
           Some k \<Rightarrow>
             take k (c # cs) # findall_words (word_char (last (take k (c # cs)))) (drop k (c # cs))
         | None \<Rightarrow> findall_words (word_char c) cs)
      else findall_words (word_char c) cs)"
  by pat_completeness auto
termination
  by (relation "measure (\<lambda>(prev, s). length s)") (auto simp del: match_word.simps dest!: match_word_bounds)

section \<open>The four analyzer activities\<close>

text \<open>Each starts with \<open>container = payload.get("container") or "pdfs"\<close>.\<close>

definition container_of :: "pydict \<Rightarrow> json" where
  "container_of payload = py_or (py_get payload ''container'') (JStr ''pdfs'')"

text \<open>\<open>_download_pdf_bytes\<close> followed by \<open>PdfReader\<close>; either may raise.\<close>

definition read_pdf :: "env \<Rightarrow> json \<Rightarrow> json \<Rightarrow> error + pdf" where
  "read_pdf E container blob_name =
     (case download_pdf_bytes E container blob_name of
        Inl e \<Rightarrow> Inl e
      | Inr pdf_bytes \<Rightarrow> PdfReader E pdf_bytes)"

text \<open>\<open>page.extract_text() or ""\<close>.\<close>

definition page_text :: "string option \<Rightarrow> string" where
  "page_text p = (case p of None \<Rightarrow> [] | Some t \<Rightarrow> t)"

text \<open>
  The loop of \<open>extract_text\<close> over \<open>enumerate(reader.pages, start=1)\<close>: \<open>i\<close> is the
  number of the next page, the accumulator holds \<open>pages\<close> and \<open>full_text_parts\<close>.
\<close>

fun extract_loop :: "int \<Rightarrow> string option list \<Rightarrow> json list \<times> string list \<Rightarrow> json list \<times> string list" where
  "extract_loop i [] acc = acc"
| "extract_loop i (page # rest) (pgs, full_text_parts) =
     (let text = page_text page in
        extract_loop (i + 1) rest
          (pgs @ [JObj [(''page'', JInt i), (''text'', JStr text)]],
           if text \<noteq> [] then full_text_parts @ [text] else full_text_parts))"

definition extract_text :: "env \<Rightarrow> pydict \<Rightarrow> error + json" where
  "extract_text E payload =
     (let container = container_of payload;
          blob_name = py_get payload ''blob_name''
      in if \<not> truthy blob_name then Inr (JObj [(''pages'', JArr []), (''full_text'', JStr '''')])
         else
           (case read_pdf E container blob_name of
              Inl e \<Rightarrow> Inl e
            | Inr reader \<Rightarrow>
                (case extract_loop 1 (pages reader) ([], []) of
                   (pgs, full_text_parts) \<Rightarrow>
                     Inr (JObj [(''pages'', JArr pgs), (''full_text'', JStr (join nl full_text_parts))]))))"



text \<open>The body of \<open>analyze_statistics\<close> once the document is read.\<close>

definition statistics_of :: "pdf \<Rightarrow> json" where
  "statistics_of reader =
     (let page_count = int (length (pages reader));
          all_text_parts = map page_text (pages reader);
          full_text = join nl all_text_parts;
          words = findall_words False full_text;
          word_count = int (length words);
          avg_words_per_page =
            (if page_count \<noteq> 0 then real_of_int word_count / real_of_int page_count else 0);
          wpm = (200 :: int);
          estimated_minutes = (if wpm \<noteq> 0 then real_of_int word_count / real_of_int wpm else 0)
      in JObj
           [(''page_count'', JInt page_count),
            (''word_count'', JInt word_count),
            (''avg_words_per_page'', JFloat avg_words_per_page),
            (''estimated_reading_time_minutes'', JFloat estimated_minutes)])"

definition analyze_statistics :: "env \<Rightarrow> pydict \<Rightarrow> error + json" where
  "analyze_statistics E payload =
     (let container = container_of payload;
          blob_name = py_get payload ''blob_name''
      in if \<not> truthy blob_name then
           Inr (JObj
             [(''page_count'', JInt 0),
              (''word_count'', JInt 0),
              (''avg_words_per_page'', JFloat 0),
              (''estimated_reading_time_minutes'', JFloat 0)])
         else
           (case read_pdf E container blob_name of
              Inl e \<Rightarrow> Inl e
            | Inr reader \<Rightarrow> Inr (statistics_of reader)))"



section \<open>Table Storage\<close>

text \<open>
  A stored entity (the persisted schema): the two keys are strings; \<open>generated_at_utc\<close>
  and \<open>report\<close> are attributes an entity may lack (\<open>None\<close>). The table is the list of
  its entities in the order in which the service enumerates them.
\<close>

record entity =
  PartitionKey :: string
  RowKey :: string
  generated_at_utc :: "json option"
  report :: "string option"

type_synonym table = "entity list"

text \<open>
  \<open>upsert_entity(mode="merge")\<close>: an attribute the new entity carries overwrites the
  stored one, an attribute it lacks is preserved; an entity with new keys is inserted.
\<close>

definition merge_entity :: "entity \<Rightarrow> entity \<Rightarrow> entity" where
  "merge_entity old new =
     old\<lparr>generated_at_utc := (case generated_at_utc new of None \<Rightarrow> generated_at_utc old | Some v \<Rightarrow> Some v),
         report := (case report new of None \<Rightarrow> report old | Some r \<Rightarrow> Some r)\<rparr>"

fun upsert_entity :: "entity \<Rightarrow> table \<Rightarrow> table" where
  "upsert_entity e [] = [e]"
| "upsert_entity e (x # xs) =
     (if PartitionKey x = PartitionKey e \<and> RowKey x = RowKey e then merge_entity x e # xs
      else x # upsert_entity e xs)"

text \<open>\<open>table.get_entity(partition_key, row_key)\<close>, which raises when there is none.\<close>

fun get_entity :: "table \<Rightarrow> string \<Rightarrow> string \<Rightarrow> error + entity" where
  "get_entity [] pk rk = Inl (StorageError ''ResourceNotFound'')"
| "get_entity (x # xs) pk rk =
     (if PartitionKey x = pk \<and> RowKey x = rk then Inr x else get_entity xs pk rk)"

text \<open>\<open>query_entities("PartitionKey eq '<container>'")\<close>.\<close>

definition query_entities :: "table \<Rightarrow> string \<Rightarrow> entity list" where
  "query_entities tbl container = filter (\<lambda>e. PartitionKey e = container) tbl"

section \<open>Activity \<open>store_report\<close>\<close>

text \<open>
  The table client takes string keys only: a payload whose \<open>container\<close> or \<open>blob_name\<close>
  is a truthy value of another type makes \<open>upsert_entity\<close> raise.
\<close>

definition store_report :: "env \<Rightarrow> pydict \<Rightarrow> table \<Rightarrow> (error + json) \<times> table" where
  "store_report E payload tbl =
     (let container = py_get_default payload ''container'' (JStr ''pdfs'');
          blob_name = py_get payload ''blob_name''
      in if \<not> truthy blob_name then
           (Inl (ValueError (''store_report requires '' @ [CHR 0x27] @ ''blob_name'' @ [CHR 0x27] @ '' in payload'')), tbl)
         else
           (case (container, blob_name) of
              (JStr c, JStr n) \<Rightarrow>
                (let e = \<lparr>PartitionKey = c, RowKey = n,
                          generated_at_utc =
                            Some (py_or (py_get payload ''generated_at_utc'') (JStr (utcnow E))),
                          report = Some (dumps E (JObj payload))\<rparr>
                 in (Inr (JObj [(''partition_key'', container), (''row_key'', blob_name),
                                (''table'', JStr (table_name E))]),
                     upsert_entity e tbl))
            | _ \<Rightarrow> (Inl (TypeError ''entity keys must be strings''), tbl)))"

section \<open>HTTP function \<open>reports\<close>\<close>

record http_response =
  status_code :: nat
  body :: string

text \<open>The item the listing builds of an entity.\<close>

definition item_of :: "entity \<Rightarrow> pydict" where
  "item_of e =
     [(''container'', JStr (PartitionKey e)),
      (''blob_name'', JStr (RowKey e)),
      (''generated_at_utc'', (case generated_at_utc e of None \<Rightarrow> JNull | Some v \<Rightarrow> v))]"

text \<open>
  The loop over the queried entities: each is appended to \<open>items\<close>, and the loop is left
  as soon as \<open>len(items) >= top\<close>.
\<close>

fun collect_items :: "int \<Rightarrow> entity list \<Rightarrow> pydict list \<Rightarrow> pydict list" where
  "collect_items topn [] items = items"
| "collect_items topn (e # es) items =
     (let items' = items @ [item_of e] in
        if int (length items') \<ge> topn then items' else collect_items topn es items')"

text \<open>The sort key \<open>x.get("generated_at_utc") or ""\<close>.\<close>

definition sort_key_of :: "pydict \<Rightarrow> json" where
  "sort_key_of x = py_or (py_get x ''generated_at_utc'') (JStr '''')"

definition is_str :: "json \<Rightarrow> bool" where
  "is_str v = (case v of JStr _ \<Rightarrow> True | _ \<Rightarrow> False)"

definition str_of :: "json \<Rightarrow> string" where
  "str_of v = (case v of JStr s \<Rightarrow> s | _ \<Rightarrow> [])"

text \<open>
  \<open>items.sort(key=..., reverse=True)\<close>. Python's sort is stable, and with
  \<open>reverse=True\<close> it reverses the list, sorts it ascending and reverses the result, so
  that items of equal keys keep their order. Strings compare lexicographically by code
  point. The model sorts string keys only: a string does not compare with a value of
  another type (\<open>TypeError\<close>), and lists of keys of other types are not modelled.
\<close>

definition sort_items_desc :: "pydict list \<Rightarrow> error + pydict list" where
  "sort_items_desc items =
     (if list_all (\<lambda>x. is_str (sort_key_of x)) items
      then Inr (rev (sort_key (\<lambda>x. str_of (sort_key_of x)) (rev items)))
      else Inl (TypeError ''unorderable sort keys''))"

text \<open>\<open>top = max(1, min(top, 200))\<close> after \<open>int(req.params.get("top", "50"))\<close>.\<close>

definition parse_top :: "env \<Rightarrow> string option \<Rightarrow> int" where
  "parse_top E top_param =
     (let topn = (case int_of_str E (case top_param of None \<Rightarrow> ''50'' | Some s \<Rightarrow> s) of
                   None \<Rightarrow> 50
                 | Some n \<Rightarrow> n)
      in max 1 (min topn 200))"

text \<open>The items of the listing, before they are serialised.\<close>

definition list_items :: "env \<Rightarrow> table \<Rightarrow> string \<Rightarrow> string option \<Rightarrow> error + pydict list" where
  "list_items E tbl container top_param =
     sort_items_desc (collect_items (parse_top E top_param) (query_entities tbl container) [])"

text \<open>
  \<open>reports(req)\<close>: the route parameters \<open>container\<close> and \<open>blob_name\<close> and the query
  parameter \<open>top\<close>. An exception that escapes the function is \<open>Inl\<close>.
\<close>

definition reports :: "env \<Rightarrow> table \<Rightarrow> string option \<Rightarrow> string option \<Rightarrow> string option \<Rightarrow> error + http_response" where
  "reports E tbl container blob_name top_param =
     (case container of
        None \<Rightarrow> Inr \<lparr>status_code = 400, body = dumps E (JObj [(''error'', JStr ''Missing container in route.'')])\<rparr>
      | Some c \<Rightarrow>
          if c = [] then
            Inr \<lparr>status_code = 400, body = dumps E (JObj [(''error'', JStr ''Missing container in route.'')])\<rparr>
          else if blob_name \<noteq> None \<and> blob_name \<noteq> Some [] then
            (case get_entity tbl c (the blob_name) of
               Inr e \<Rightarrow>
                 Inr \<lparr>status_code = 200, body = (case report e of None \<Rightarrow> ''{}'' | Some r \<Rightarrow> r)\<rparr>
             | Inl err \<Rightarrow>
                 Inr \<lparr>status_code = 404,
                      body = dumps E (JObj [(''error'', JStr ''Report not found''),
                                            (''details'', JStr (case err of StorageError m \<Rightarrow> m | _ \<Rightarrow> []))])\<rparr>)
          else
            (case list_items E tbl c top_param of
               Inl err \<Rightarrow> Inl err
             | Inr items \<Rightarrow> Inr \<lparr>status_code = 200, body = dumps E (JArr (map JObj items))\<rparr>))"

section \<open>The orchestrator\<close>

text \<open>
  An activity call of the orchestrator: its name and its input. The orchestrator is
  written over the function \<open>act\<close> that runs an activity on the state \<open>'w\<close> of the outside
  world, and returns its result together with the calls it made, in order, and the final
  state.
\<close>

datatype call = Call string json

definition call_name :: "call \<Rightarrow> string" where
  "call_name c = (case c of Call n _ \<Rightarrow> n)"






section \<open>A concrete environment for the examples\<close>

text \<open>
  One document, \<open>pdfs/test.pdf\<close>, of four pages (the second with empty text, the third
  with none); every other download fails. The serialiser of the examples writes a report
  as a tag followed by its \<open>blob_name\<close>.
\<close>

definition demo_pdf :: pdf where
  "demo_pdf =
     \<lparr>pages = [Some ''Contact us at a@b.com or visit https://x.io'', Some [], None,
               Some ''Call 555-123-4567''],
      metadata = Some [(''/Title'', ''Demo''), (''/Author'', ''Ann'')]\<rparr>"

definition demo_dumps :: "json \<Rightarrow> string" where
  "demo_dumps j =
     (case j of
        JObj d \<Rightarrow> (case map_of d ''blob_name'' of Some (JStr n) \<Rightarrow> ''report:'' @ n | _ \<Rightarrow> ''{..}'')
      | _ \<Rightarrow> ''..'')"

definition demo_env :: env where
  "demo_env =
     \<lparr>download_pdf_bytes =
        (\<lambda>c n. if c = JStr ''pdfs'' \<and> n = JStr ''test.pdf'' then Inr [37, 80, 68, 70]
               else Inl (StorageError ''BlobNotFound'')),
      PdfReader =
        (\<lambda>b. if b = [37, 80, 68, 70] then Inr demo_pdf else Inl (PdfReadError ''not a PDF'')),
      utcnow = ''2024-04-01T00:00:00Z'',
      dumps = demo_dumps,
      table_name = ''PdfReports'',
      int_of_str = (\<lambda>s. if s = ''2'' then Some 2 else if s = ''50'' then Some 50 else None),
      email_re = (\<lambda>t. [''a@b.com'']),
      phone_re = (\<lambda>t. [''555-123-4567'']),
      url_re = (\<lambda>t. [''https://x.io'']),
      date_re = (\<lambda>t. [])\<rparr>"

text \<open>The identity \<open>{container, blob_name}\<close> as a payload.\<close>

definition identity :: "json \<Rightarrow> json \<Rightarrow> pydict" where
  "identity container blob_name = [(''container'', container), (''blob_name'', blob_name)]"

text \<open>Three reports of the container \<open>pdfs\<close>, in the order in which the table enumerates them.\<close>

definition demo_table :: table where
  "demo_table =
     [\<lparr>PartitionKey = ''pdfs'', RowKey = ''a.pdf'', generated_at_utc = Some (JStr ''2024-01-01Z''),
       report = Some ''report:a.pdf''\<rparr>,
      \<lparr>PartitionKey = ''pdfs'', RowKey = ''b.pdf'', generated_at_utc = Some (JStr ''2024-03-01Z''),
       report = Some ''report:b.pdf''\<rparr>,
      \<lparr>PartitionKey = ''pdfs'', RowKey = ''c.pdf'', generated_at_utc = Some (JStr ''2024-02-01Z''),
       report = Some ''report:c.pdf''\<rparr>]"

text \<open>The decoder of the examples: it reads the \<open>blob_name\<close> behind the tag.\<close>

definition demo_loads :: "string \<Rightarrow> json" where
  "demo_loads s = JObj (identity (JStr ''pdfs'') (JStr (drop 7 s)))"

definition zero_statistics :: json where
  "zero_statistics =
     JObj [(''page_count'', JInt 0), (''word_count'', JInt 0),
           (''avg_words_per_page'', JFloat 0), (''estimated_reading_time_minutes'', JFloat 0)]"

definition empty_metadata_fields :: json where
  "empty_metadata_fields =
     JObj [(''title'', JStr []), (''author'', JStr []), (''subject'', JStr []), (''creator'', JStr []),
           (''producer'', JStr []), (''creation_date'', JStr []), (''mod_date'', JStr [])]"

definition analyzers :: "string list" where
  "analyzers = [''extract_text'', ''extract_metadata'', ''analyze_statistics'', ''detect_sensitive_data'']"

section \<open>The notions of the specification\<close>

text \<open>The page entries as the specification describes them: numbered from \<open>i\<close> on, in order.\<close>

fun numbered_pages :: "int \<Rightarrow> string list \<Rightarrow> json list" where
  "numbered_pages i [] = []"
| "numbered_pages i (t # ts) =
     JObj [(''page'', JInt i), (''text'', JStr t)] # numbered_pages (i + 1) ts"

text \<open>
  The specification's count: the number of maximal runs of word characters in a text. A
  run starts at each word character that no word character precedes; \<open>prev\<close> tells
  whether a word character stands before the text.
\<close>

fun word_runs :: "bool \<Rightarrow> string \<Rightarrow> nat" where
  "word_runs prev [] = 0"
| "word_runs prev (c # cs) =
     (if word_char c \<and> \<not> prev then 1 else 0) + word_runs (word_char c) cs"

text \<open>The field \<open>k\<close> of a JSON object.\<close>

definition json_field :: "json \<Rightarrow> string \<Rightarrow> json" where
  "json_field j k = (case j of JObj d \<Rightarrow> py_get d k | _ \<Rightarrow> JNull)"

text \<open>The timestamp a listed item is sorted by.\<close>

definition stamp :: "pydict \<Rightarrow> string" where
  "stamp x = str_of (sort_key_of x)"

section \<open>Claims\<close>

subsection \<open>C3: defaults of \<open>generate_report\<close>\<close>

lemma py_get_generate_report:
  "py_get (generate_report E payload) ''extract_text'' =
     py_or (py_get payload ''extract_text'') empty_text_result"
  "py_get (generate_report E payload) ''extract_metadata'' =
     py_or (py_get payload ''extract_metadata'') (JObj [])"
  "py_get (generate_report E payload) ''analyze_statistics'' =
     py_or (py_get payload ''analyze_statistics'') (JObj [])"
  "py_get (generate_report E payload) ''detect_sensitive_data'' =
     py_or (py_get payload ''detect_sensitive_data'') empty_sensitive_result"
  by (simp_all add: generate_report_def py_get_def)

lemma py_or_not_null: "b \<noteq> JNull \<Longrightarrow> py_or a b \<noteq> JNull"
  by (cases a) (auto simp: py_or_def)

text \<open>
  Claim C3, as the code has it. The Report that \<open>generate_report\<close> assembles always has
  the seven keys \<open>container\<close>, \<open>blob_name\<close>, \<open>generated_at_utc\<close>, \<open>extract_text\<close>,
  \<open>extract_metadata\<close>, \<open>analyze_statistics\<close>, \<open>detect_sensitive_data\<close>, and none of the four
  component values is null. A component that is missing or null in the input (or falsy
  in any other way) is replaced: \<open>extract_text\<close> by \<open>{pages: [], full_text: ""}\<close>,
  \<open>detect_sensitive_data\<close> by the four empty lists, and both \<open>extract_metadata\<close> and
  \<open>analyze_statistics\<close> by the empty mapping \<open>{}\<close>, which holds none of the seven
  metadata fields and none of the four statistics.
\<close>

theorem generate_report_defaults:
  "map fst (generate_report E payload) =
     [''container'', ''blob_name'', ''generated_at_utc'', ''extract_text'', ''extract_metadata'',
      ''analyze_statistics'', ''detect_sensitive_data''] \<and>
   (\<forall>k \<in> set analyzers. py_get (generate_report E payload) k \<noteq> JNull) \<and>
   (\<not> truthy (py_get payload ''extract_text'') \<longrightarrow>
      py_get (generate_report E payload) ''extract_text'' = empty_text_result) \<and>
   (\<not> truthy (py_get payload ''detect_sensitive_data'') \<longrightarrow>
      py_get (generate_report E payload) ''detect_sensitive_data'' = empty_sensitive_result) \<and>
   (\<not> truthy (py_get payload ''extract_metadata'') \<longrightarrow>
      py_get (generate_report E payload) ''extract_metadata'' = JObj []) \<and>
   (\<not> truthy (py_get payload ''analyze_statistics'') \<longrightarrow>
      py_get (generate_report E payload) ''analyze_statistics'' = JObj [])"
proof -
  have keys: "map fst (generate_report E payload) =
     [''container'', ''blob_name'', ''generated_at_utc'', ''extract_text'', ''extract_metadata'',
      ''analyze_statistics'', ''detect_sensitive_data'']"
    by (simp add: generate_report_def)
  have nonnull: "\<forall>k \<in> set analyzers. py_get (generate_report E payload) k \<noteq> JNull"
    by (simp add: analyzers_def py_get_generate_report py_or_not_null
        empty_text_result_def empty_sensitive_result_def)
  show ?thesis
    using keys nonnull by (simp add: py_get_generate_report py_or_def)
qed

theorem generate_report_defaults_witness:
  "\<not> truthy (py_get [(''container'', JStr ''pdfs''), (''blob_name'', JStr ''a.pdf''),
                      (''extract_metadata'', JNull)] ''extract_text'') \<and>
   \<not> truthy (py_get [(''container'', JStr ''pdfs''), (''blob_name'', JStr ''a.pdf''),
                      (''extract_metadata'', JNull)] ''extract_metadata'') \<and>
   generate_report demo_env
     [(''container'', JStr ''pdfs''), (''blob_name'', JStr ''a.pdf''), (''extract_metadata'', JNull)] =
     [(''container'', JStr ''pdfs''), (''blob_name'', JStr ''a.pdf''),
      (''generated_at_utc'', JStr ''2024-04-01T00:00:00Z''),
      (''extract_text'', JObj [(''pages'', JArr []), (''full_text'', JStr [])]),
      (''extract_metadata'', JObj []),
      (''analyze_statistics'', JObj []),
      (''detect_sensitive_data'',
         JObj [(''emails'', JArr []), (''phones'', JArr []), (''urls'', JArr []), (''dates'', JArr [])])] \<and>
   py_get (generate_report demo_env
     [(''container'', JStr ''pdfs''), (''blob_name'', JStr ''a.pdf''), (''extract_metadata'', JNull)])
     ''extract_metadata'' = JObj []"
  using generate_report_defaults [of demo_env
      "[(''container'', JStr ''pdfs''), (''blob_name'', JStr ''a.pdf''), (''extract_metadata'', JNull)]"]
  by (simp add: generate_report_def py_get_def py_get_default_def py_or_def demo_env_def
      empty_text_result_def empty_sensitive_result_def)

text \<open>
  The claim as stated fails: with \<open>extract_metadata\<close> null and \<open>analyze_statistics\<close>
  missing, the Report holds \<open>{}\<close> for both, not the seven empty strings and not the
  all-zero statistics.
\<close>

theorem generate_report_defaults_counterexample:
  "py_get (generate_report demo_env
     [(''container'', JStr ''pdfs''), (''blob_name'', JStr ''a.pdf''), (''extract_metadata'', JNull)])
     ''extract_metadata'' \<noteq> empty_metadata_fields \<and>
   py_get (generate_report demo_env
     [(''container'', JStr ''pdfs''), (''blob_name'', JStr ''a.pdf''), (''extract_metadata'', JNull)])
     ''analyze_statistics'' \<noteq> zero_statistics"
  by (simp add: generate_report_def py_get_def py_or_def empty_metadata_fields_def
      zero_statistics_def)

subsection \<open>C1: the analyzers when the document cannot be read\<close>





subsection \<open>C4: the orchestrator without a \<open>blob_name\<close>\<close>



subsection \<open>C5: a failed analyzer fails the whole run\<close>







subsection \<open>C10: the default container\<close>





subsection \<open>C6: the result of \<open>extract_text\<close>\<close>

lemma extract_loop_eq:
  "extract_loop i ps (pgs, parts) =
     (pgs @ numbered_pages i (map page_text ps),
      parts @ filter (\<lambda>t. t \<noteq> []) (map page_text ps))"
  by (induction ps arbitrary: i pgs parts) (simp_all add: Let_def)

lemma length_numbered_pages: "length (numbered_pages i ts) = length ts"
  by (induction ts arbitrary: i) simp_all

lemma numbered_pages_nth:
  "k < length ts \<Longrightarrow>
   numbered_pages i ts ! k = JObj [(''page'', JInt (i + int k)), (''text'', JStr (ts ! k))]"
proof (induction ts arbitrary: i k)
  case Nil
  then show ?case by simp
next
  case (Cons t ts)
  show ?case
  proof (cases k)
    case 0
    then show ?thesis by simp
  next
    case (Suc j)
    with Cons.prems have "j < length ts" by simp
    from Cons.IH [OF this, of "i + 1"] Suc show ?thesis
      by (simp add: algebra_simps)
  qed
qed

text \<open>
  Claim C6. For a document that is read (the payload names it, the download and the
  parser succeed), \<open>extract_text\<close> returns \<open>pages\<close> with one entry for each page of the
  document, in page order: entry \<open>k\<close> (from 0) has the page number \<open>k + 1\<close> and the text of
  that page, empty or not. Its \<open>full_text\<close> is the texts of the pages that are not empty,
  in page order, joined with newlines.
\<close>

theorem extract_text_pages:
  assumes "truthy (py_get payload ''blob_name'')"
    and "read_pdf E (container_of payload) (py_get payload ''blob_name'') = Inr reader"
  shows "\<exists>pgs.
    extract_text E payload =
      Inr (JObj [(''pages'', JArr pgs),
                 (''full_text'',
                    JStr (join nl (filter (\<lambda>t. t \<noteq> []) (map page_text (pages reader)))))]) \<and>
    length pgs = length (pages reader) \<and>
    (\<forall>k < length (pages reader).
       pgs ! k = JObj [(''page'', JInt (int k + 1)),
                       (''text'', JStr (page_text (pages reader ! k)))])"
proof -
  let ?ts = "map page_text (pages reader)"
  have e: "extract_text E payload =
      Inr (JObj [(''pages'', JArr (numbered_pages 1 ?ts)),
                 (''full_text'', JStr (join nl (filter (\<lambda>t. t \<noteq> []) ?ts)))])"
    using assms by (simp add: extract_text_def extract_loop_eq)
  have n: "numbered_pages 1 ?ts ! k =
      JObj [(''page'', JInt (int k + 1)), (''text'', JStr (page_text (pages reader ! k)))]"
    if "k < length (pages reader)" for k
    using that numbered_pages_nth [of k ?ts 1] by simp
  show ?thesis
    using e n by (simp add: length_numbered_pages)
qed

theorem extract_text_pages_witness:
  "truthy (py_get (identity (JStr ''pdfs'') (JStr ''test.pdf'')) ''blob_name'') \<and>
   read_pdf demo_env (container_of (identity (JStr ''pdfs'') (JStr ''test.pdf'')))
     (py_get (identity (JStr ''pdfs'') (JStr ''test.pdf'')) ''blob_name'') = Inr demo_pdf \<and>
   extract_text demo_env (identity (JStr ''pdfs'') (JStr ''test.pdf'')) =
     Inr (JObj
       [(''pages'',
         JArr [JObj [(''page'', JInt 1), (''text'', JStr ''Contact us at a@b.com or visit https://x.io'')],
               JObj [(''page'', JInt 2), (''text'', JStr [])],
               JObj [(''page'', JInt 3), (''text'', JStr [])],
               JObj [(''page'', JInt 4), (''text'', JStr ''Call 555-123-4567'')]]),
        (''full_text'',
         JStr (''Contact us at a@b.com or visit https://x.io'' @ [CHR 0x0A] @ ''Call 555-123-4567''))]) \<and>
   (\<exists>pgs.
      extract_text demo_env (identity (JStr ''pdfs'') (JStr ''test.pdf'')) =
        Inr (JObj [(''pages'', JArr pgs),
                   (''full_text'',
                      JStr (join nl (filter (\<lambda>t. t \<noteq> []) (map page_text (pages demo_pdf)))))]) \<and>
      length pgs = length (pages demo_pdf) \<and>
      (\<forall>k < length (pages demo_pdf).
         pgs ! k = JObj [(''page'', JInt (int k + 1)),
                         (''text'', JStr (page_text (pages demo_pdf ! k)))]))"
proof -
  let ?p = "identity (JStr ''pdfs'') (JStr ''test.pdf'')"
  have t: "truthy (py_get ?p ''blob_name'')"
    by (simp add: py_get_def identity_def)
  have r: "read_pdf demo_env (container_of ?p) (py_get ?p ''blob_name'') = Inr demo_pdf"
    by (simp add: read_pdf_def container_of_def py_get_def py_or_def identity_def demo_env_def)
  have v: "extract_text demo_env ?p =
     Inr (JObj
       [(''pages'',
         JArr [JObj [(''page'', JInt 1), (''text'', JStr ''Contact us at a@b.com or visit https://x.io'')],
               JObj [(''page'', JInt 2), (''text'', JStr [])],
               JObj [(''page'', JInt 3), (''text'', JStr [])],
               JObj [(''page'', JInt 4), (''text'', JStr ''Call 555-123-4567'')]]),
        (''full_text'',
         JStr (''Contact us at a@b.com or visit https://x.io'' @ [CHR 0x0A] @ ''Call 555-123-4567''))])"
    using t r by (simp add: extract_text_def demo_pdf_def page_text_def nl_def Let_def)
  from extract_text_pages [OF t r] t r v show ?thesis
    by blast
qed

subsection \<open>C7: the derived statistics\<close>

lemma statistics_of_eq:
  "statistics_of reader =
     JObj [(''page_count'', JInt (int (length (pages reader)))),
           (''word_count'',
              JInt (int (length (findall_words False (join nl (map page_text (pages reader))))))),
           (''avg_words_per_page'',
              JFloat (if 0 < length (pages reader)
                      then real (length (findall_words False (join nl (map page_text (pages reader))))) /
                           real (length (pages reader))
                      else 0)),
           (''estimated_reading_time_minutes'',
              JFloat (real (length (findall_words False (join nl (map page_text (pages reader))))) / 200))]"
  by (simp add: statistics_of_def Let_def)


lemma demo_word_count:
  "length (findall_words False (join nl (map page_text (pages demo_pdf)))) = 15"
  by code_simp

lemma demo_statistics:
  "analyze_statistics demo_env (identity (JStr ''pdfs'') (JStr ''test.pdf'')) =
     Inr (JObj [(''page_count'', JInt 4), (''word_count'', JInt 15),
                (''avg_words_per_page'', JFloat (15 / 4)),
                (''estimated_reading_time_minutes'', JFloat (15 / 200))])"
proof -
  have "analyze_statistics demo_env (identity (JStr ''pdfs'') (JStr ''test.pdf'')) =
      Inr (statistics_of demo_pdf)"
    by (simp add: analyze_statistics_def read_pdf_def container_of_def py_get_def py_or_def
        identity_def demo_env_def)
  moreover have "length (pages demo_pdf) = 4"
    by (simp add: demo_pdf_def)
  ultimately show ?thesis
    by (simp add: statistics_of_eq demo_word_count)
qed


subsection \<open>C8: the word count\<close>

lemma match_word_run:
  "word_char c \<Longrightarrow> match_word (c # cs) = Some (Suc (length (takeWhile word_char cs)))"
proof (induction cs arbitrary: c)
  case Nil
  then show ?case by (simp add: at_boundary_def)
next
  case (Cons d ds)
  show ?case
  proof (cases "word_char d")
    case True
    from Cons.IH [OF True] Cons.prems True show ?thesis by simp
  next
    case False
    with Cons.prems show ?thesis by (simp add: at_boundary_def)
  qed
qed

lemma findall_words_start:
  assumes "word_char c"
  shows "findall_words False (c # cs) =
    (c # takeWhile word_char cs) # findall_words True (dropWhile word_char cs)"
proof -
  let ?k = "length (takeWhile word_char cs)"
  have tk: "take ?k cs = takeWhile word_char cs"
    by (rule takeWhile_eq_take [symmetric])
  have dk: "drop ?k cs = dropWhile word_char cs"
    by (rule dropWhile_eq_drop [symmetric])
  have "last (c # takeWhile word_char cs) \<in> set (c # takeWhile word_char cs)"
    by (rule last_in_set) simp
  then have lw: "word_char (last (c # takeWhile word_char cs))"
    using assms by (auto dest: set_takeWhileD)
  have b: "at_boundary False (c # cs)"
    using assms by (simp add: at_boundary_def)
  have "findall_words False (c # cs) =
      take (Suc ?k) (c # cs) #
        findall_words (word_char (last (take (Suc ?k) (c # cs)))) (drop (Suc ?k) (c # cs))"
    using b match_word_run [OF assms, of cs]
    by (subst findall_words.simps) (simp del: match_word.simps take_Suc_Cons drop_Suc_Cons)
  then show ?thesis
    using tk dk lw by simp
qed

lemma findall_words_skip:
  "\<not> (word_char c \<and> \<not> prev) \<Longrightarrow> findall_words prev (c # cs) = findall_words (word_char c) cs"
  by (simp add: at_boundary_def)

lemma word_runs_dropWhile: "word_runs True (dropWhile word_char cs) = word_runs True cs"
  by (induction cs) simp_all

text \<open>The pattern finds exactly the maximal runs: as many matches as there are runs.\<close>

lemma findall_words_length: "length (findall_words prev s) = word_runs prev s"
proof (induction "length s" arbitrary: s prev rule: less_induct)
  case less
  show ?case
  proof (cases s)
    case Nil
    then show ?thesis by simp
  next
    case (Cons c cs)
    show ?thesis
    proof (cases "word_char c \<and> \<not> prev")
      case True
      have "length (dropWhile word_char cs) < length s"
        using Cons length_dropWhile_le [of word_char cs] by simp
      from less [OF this] True Cons show ?thesis
        by (simp add: findall_words_start word_runs_dropWhile del: findall_words.simps)
    next
      case False
      have "length cs < length s"
        using Cons by simp
      from less [OF this] False Cons show ?thesis
        by (simp add: findall_words_skip del: findall_words.simps)
    qed
  qed
qed

lemma word_runs_append:
  "word_runs p (xs @ ys) =
     word_runs p xs + word_runs (if xs = [] then p else word_char (last xs)) ys"
  by (induction xs arbitrary: p) simp_all

lemma word_runs_nonword: "\<forall>c \<in> set s. \<not> word_char c \<Longrightarrow> word_runs p s = 0"
  by (induction s arbitrary: p) simp_all

lemma word_runs_separator:
  assumes "sep \<noteq> []" and "\<forall>c \<in> set sep. \<not> word_char c"
  shows "word_runs p (sep @ s) = word_runs False s"
proof -
  have "\<not> word_char (last sep)"
    using assms by simp
  then show ?thesis
    using assms by (simp add: word_runs_append word_runs_nonword)
qed

lemma word_runs_join:
  assumes "sep \<noteq> []" and "\<forall>c \<in> set sep. \<not> word_char c"
  shows "word_runs False (join sep ts) = sum_list (map (word_runs False) ts)"
proof (induction ts rule: induct_list012)
  case 1
  then show ?case by simp
next
  case (2 x)
  then show ?case by simp
next
  case (3 x y ys)
  have "word_runs False (join sep (x # y # ys)) =
      word_runs False x +
      word_runs (if x = [] then False else word_char (last x)) (sep @ join sep (y # ys))"
    by (simp add: word_runs_append)
  also have "\<dots> = word_runs False x + word_runs False (join sep (y # ys))"
    by (simp only: word_runs_separator [OF assms])
  finally show ?case
    using 3 by simp
qed

lemma newline_not_word: "\<forall>c \<in> set nl. \<not> word_char c"
  by (simp add: nl_def word_char_def)

lemma sum_list_mset_cong:
  "mset xs = mset ys \<Longrightarrow> sum_list (map f xs) = sum_list (map (f :: 'a \<Rightarrow> nat) ys)"
proof -
  assume "mset xs = mset ys"
  then have "mset (map f xs) = mset (map f ys)"
    by (metis mset_map)
  then show ?thesis
    by (metis sum_mset_sum_list)
qed

text \<open>
  Claim C8, as the code has it. For a document that is read, the \<open>word_count\<close> of
  \<open>analyze_statistics\<close> is the number of maximal runs of word characters in the page
  texts joined with newlines, repeats counted. A run never spans two pages, so the count
  is the sum of the counts of the pages; it is the same for every order of the pages, and
  the same for every separator in place of the newline that is not empty and holds no
  word character.
\<close>

theorem word_count_runs:
  assumes "truthy (py_get payload ''blob_name'')"
    and "read_pdf E (container_of payload) (py_get payload ''blob_name'') = Inr reader"
  shows "\<exists>r.
    analyze_statistics E payload = Inr r \<and>
    json_field r ''word_count'' =
      JInt (int (word_runs False (join nl (map page_text (pages reader))))) \<and>
    word_runs False (join nl (map page_text (pages reader))) =
      sum_list (map (word_runs False) (map page_text (pages reader))) \<and>
    (\<forall>ts. mset ts = mset (map page_text (pages reader)) \<longrightarrow>
       word_runs False (join nl ts) = word_runs False (join nl (map page_text (pages reader)))) \<and>
    (\<forall>sep. sep \<noteq> [] \<and> (\<forall>c \<in> set sep. \<not> word_char c) \<longrightarrow>
       word_runs False (join sep (map page_text (pages reader))) =
       word_runs False (join nl (map page_text (pages reader))))"
proof -
  let ?ts = "map page_text (pages reader)"
  have nl_ne: "nl \<noteq> []"
    by (simp add: nl_def)
  have a: "analyze_statistics E payload = Inr (statistics_of reader)"
    using assms by (simp add: analyze_statistics_def)
  have w: "json_field (statistics_of reader) ''word_count'' = JInt (int (word_runs False (join nl ?ts)))"
    by (simp add: statistics_of_eq json_field_def py_get_def findall_words_length)
  have s: "word_runs False (join nl ts) = sum_list (map (word_runs False) ts)" for ts
    by (rule word_runs_join [OF nl_ne newline_not_word])
  have p: "word_runs False (join nl ts) = word_runs False (join nl ?ts)" if "mset ts = mset ?ts" for ts
    using sum_list_mset_cong [OF that, of "word_runs False"] by (simp only: s)
  have q: "word_runs False (join sep ?ts) = word_runs False (join nl ?ts)"
    if "sep \<noteq> [] \<and> (\<forall>c \<in> set sep. \<not> word_char c)" for sep
  proof -
    from that have "sep \<noteq> []" and "\<forall>c \<in> set sep. \<not> word_char c"
      by simp_all
    from word_runs_join [OF this] show ?thesis
      by (simp only: s)
  qed
  from a w s p q show ?thesis
    by blast
qed

theorem word_count_runs_witness:
  "truthy (py_get (identity (JStr ''pdfs'') (JStr ''test.pdf'')) ''blob_name'') \<and>
   read_pdf demo_env (container_of (identity (JStr ''pdfs'') (JStr ''test.pdf'')))
     (py_get (identity (JStr ''pdfs'') (JStr ''test.pdf'')) ''blob_name'') = Inr demo_pdf \<and>
   (\<exists>r. analyze_statistics demo_env (identity (JStr ''pdfs'') (JStr ''test.pdf'')) = Inr r \<and>
        json_field r ''word_count'' = JInt 15 \<and>
        json_field r ''word_count'' =
          JInt (int (word_runs False (join nl (map page_text (pages demo_pdf))))))"
proof -
  let ?p = "identity (JStr ''pdfs'') (JStr ''test.pdf'')"
  have t: "truthy (py_get ?p ''blob_name'')"
    by (simp add: py_get_def identity_def)
  have r: "read_pdf demo_env (container_of ?p) (py_get ?p ''blob_name'') = Inr demo_pdf"
    by (simp add: read_pdf_def container_of_def py_get_def py_or_def identity_def demo_env_def)
  from word_count_runs [OF t r] obtain x where
    x: "analyze_statistics demo_env ?p = Inr x"
      "json_field x ''word_count'' =
         JInt (int (word_runs False (join nl (map page_text (pages demo_pdf)))))"
    by blast
  from x(1) have "json_field x ''word_count'' = JInt 15"
    by (auto simp: demo_statistics json_field_def py_get_def)
  with t r x show ?thesis
    by blast
qed

text \<open>
  The claim as stated fails for the plain concatenation of the page texts, which is the
  join with the empty separator: on the two pages \<open>ab\<close> and \<open>cd\<close> the code counts two
  words, and the concatenation \<open>abcd\<close> has one maximal run.
\<close>

theorem word_count_runs_counterexample:
  "analyze_statistics
     (demo_env\<lparr>PdfReader := (\<lambda>b. Inr \<lparr>pages = [Some ''ab'', Some ''cd''], metadata = None\<rparr>)\<rparr>)
     (identity (JStr ''pdfs'') (JStr ''test.pdf'')) =
     Inr (JObj [(''page_count'', JInt 2), (''word_count'', JInt 2),
                (''avg_words_per_page'', JFloat 1),
                (''estimated_reading_time_minutes'', JFloat (1 / 100))]) \<and>
   word_runs False (concat [''ab'', ''cd'']) = 1 \<and>
   word_runs False (join [] [''ab'', ''cd'']) = 1"
proof -
  have f: "length (findall_words False (join nl (map page_text
      (pages \<lparr>pages = [Some ''ab'', Some ''cd''], metadata = None\<rparr>)))) = 2"
    by code_simp
  have a: "analyze_statistics
     (demo_env\<lparr>PdfReader := (\<lambda>b. Inr \<lparr>pages = [Some ''ab'', Some ''cd''], metadata = None\<rparr>)\<rparr>)
     (identity (JStr ''pdfs'') (JStr ''test.pdf'')) =
     Inr (statistics_of \<lparr>pages = [Some ''ab'', Some ''cd''], metadata = None\<rparr>)"
    by (simp add: analyze_statistics_def read_pdf_def container_of_def py_get_def py_or_def
        identity_def demo_env_def)
  have b: "statistics_of \<lparr>pages = [Some ''ab'', Some ''cd''], metadata = None\<rparr> =
     JObj [(''page_count'', JInt 2), (''word_count'', JInt 2),
           (''avg_words_per_page'', JFloat 1),
           (''estimated_reading_time_minutes'', JFloat (1 / 100))]"
    by (simp only: statistics_of_eq f) simp
  have c: "word_runs False (concat [''ab'', ''cd'']) = 1"
    by (simp add: word_char_def)
  have d: "word_runs False (join [] [''ab'', ''cd'']) = 1"
    by (simp add: word_char_def)
  from a b c d show ?thesis
    by simp
qed

subsection \<open>C2: the listing\<close>

lemma collect_items_eq:
  "int (length items) < topn \<Longrightarrow>
   collect_items topn es items = items @ map item_of (take (nat topn - length items) es)"
proof (induction es arbitrary: items)
  case Nil
  then show ?case by simp
next
  case (Cons e es)
  show ?case
  proof (cases "int (length (items @ [item_of e])) \<ge> topn")
    case True
    with Cons.prems have "nat topn - length items = Suc 0"
      by simp
    with True show ?thesis
      by (simp add: Let_def)
  next
    case False
    then have lt: "int (length (items @ [item_of e])) < topn"
      by simp
    then have "nat topn - length items = Suc (nat topn - length (items @ [item_of e]))"
      by simp
    with Cons.IH [OF lt] False show ?thesis
      by (simp add: Let_def)
  qed
qed

lemma parse_top_range: "1 \<le> parse_top E top_param \<and> parse_top E top_param \<le> 200"
  by (simp add: parse_top_def Let_def)

lemma collect_items_take:
  "collect_items (parse_top E top_param) es [] = map item_of (take (nat (parse_top E top_param)) es)"
  using collect_items_eq [of "[]" "parse_top E top_param" es] parse_top_range [of E top_param]
  by simp

lemma sort_desc_sorted:
  "sorted_wrt (\<lambda>a b. f a \<ge> f b) (rev (sort_key f (rev xs)))"
proof -
  have "sorted (map f (sort_key f (rev xs)))"
    by (rule sorted_sort_key)
  then have "sorted_wrt (\<lambda>a b. f a \<le> f b) (sort_key f (rev xs))"
    by (simp add: sorted_map)
  then show ?thesis
    by (simp add: sorted_wrt_rev)
qed

lemma sort_desc_stable:
  "filter (\<lambda>x. f x = k) (rev (sort_key f (rev xs))) = filter (\<lambda>x. f x = k) xs"
proof -
  have "filter (\<lambda>x. f x = k) (sort_key f (rev xs)) = filter (\<lambda>x. f x = k) (rev xs)"
    by (rule sort_key_stable)
  then show ?thesis
    by (simp add: rev_filter [symmetric])
qed

text \<open>
  Claim C2, as the code has it. Let \<open>n\<close> be the requested limit clamped to \<open>1..200\<close> (50
  when absent or malformed), and let the timestamps of the container's entities be
  strings (or absent, which sorts as \<open>""\<close>). The listing returns the first \<open>n\<close> entities
  in the order in which the table enumerates the container (all of them when there are at
  most \<open>n\<close>), sorted by \<open>generated_at_utc\<close> in descending lexicographic order, entities of
  equal timestamps staying in the table's order.
\<close>

theorem list_items_sorted_prefix:
  assumes "\<forall>e \<in> set (query_entities tbl c). is_str (sort_key_of (item_of e))"
  shows "\<exists>items.
    list_items E tbl c top_param = Inr items \<and>
    1 \<le> parse_top E top_param \<and> parse_top E top_param \<le> 200 \<and>
    mset items =
      mset (map item_of (take (nat (parse_top E top_param)) (query_entities tbl c))) \<and>
    sorted_wrt (\<lambda>a b. stamp a \<ge> stamp b) items \<and>
    (\<forall>s. filter (\<lambda>x. stamp x = s) items =
          filter (\<lambda>x. stamp x = s)
            (map item_of (take (nat (parse_top E top_param)) (query_entities tbl c)))) \<and>
    (length (query_entities tbl c) \<le> nat (parse_top E top_param) \<longrightarrow>
       mset items = mset (map item_of (query_entities tbl c)))"
proof -
  let ?n = "nat (parse_top E top_param)"
  let ?xs = "map item_of (take ?n (query_entities tbl c))"
  let ?items = "rev (sort_key stamp (rev ?xs))"
  have "set (take ?n (query_entities tbl c)) \<subseteq> set (query_entities tbl c)"
    by (rule set_take_subset)
  with assms have "list_all (\<lambda>x. is_str (sort_key_of x)) ?xs"
    by (auto simp: list_all_iff)
  then have l: "list_items E tbl c top_param = Inr ?items"
    by (simp add: list_items_def sort_items_desc_def collect_items_take stamp_def [abs_def])
  have m: "mset ?items = mset ?xs"
    by simp
  have s: "sorted_wrt (\<lambda>a b. stamp a \<ge> stamp b) ?items"
    by (rule sort_desc_sorted)
  have f: "filter (\<lambda>x. stamp x = s) ?items = filter (\<lambda>x. stamp x = s) ?xs" for s
    by (rule sort_desc_stable)
  have a: "mset ?items = mset (map item_of (query_entities tbl c))"
    if "length (query_entities tbl c) \<le> ?n"
    using that by simp
  from l m s f a parse_top_range [of E top_param] show ?thesis
    by blast
qed

lemma demo_list:
  "list_items demo_env demo_table ''pdfs'' (Some ''2'') =
     Inr [[(''container'', JStr ''pdfs''), (''blob_name'', JStr ''b.pdf''),
           (''generated_at_utc'', JStr ''2024-03-01Z'')],
          [(''container'', JStr ''pdfs''), (''blob_name'', JStr ''a.pdf''),
           (''generated_at_utc'', JStr ''2024-01-01Z'')]]"
  by (simp add: list_items_def sort_items_desc_def parse_top_def query_entities_def
      demo_table_def demo_env_def item_of_def sort_key_of_def py_get_def py_or_def is_str_def
      str_of_def Let_def)

theorem list_items_sorted_prefix_witness:
  "list_all (\<lambda>e. is_str (sort_key_of (item_of e))) (query_entities demo_table ''pdfs'') \<and>
   parse_top demo_env (Some ''2'') = 2 \<and>
   (\<exists>items.
      list_items demo_env demo_table ''pdfs'' (Some ''2'') = Inr items \<and>
      map stamp items = [''2024-03-01Z'', ''2024-01-01Z''] \<and>
      mset items = mset (map item_of (take 2 (query_entities demo_table ''pdfs''))) \<and>
      sorted_wrt (\<lambda>a b. stamp a \<ge> stamp b) items)"
proof -
  have h: "\<forall>e \<in> set (query_entities demo_table ''pdfs''). is_str (sort_key_of (item_of e))"
    by (simp add: query_entities_def demo_table_def item_of_def sort_key_of_def py_get_def
        py_or_def is_str_def)
  have n: "parse_top demo_env (Some ''2'') = 2"
    by (simp add: parse_top_def demo_env_def)
  have st: "map stamp
     [[(''container'', JStr ''pdfs''), (''blob_name'', JStr ''b.pdf''),
       (''generated_at_utc'', JStr ''2024-03-01Z'')],
      [(''container'', JStr ''pdfs''), (''blob_name'', JStr ''a.pdf''),
       (''generated_at_utc'', JStr ''2024-01-01Z'')]] = [''2024-03-01Z'', ''2024-01-01Z'']"
    by (simp add: stamp_def sort_key_of_def py_get_def py_or_def str_of_def)
  from list_items_sorted_prefix [OF h, of demo_env "Some ''2''"] obtain items where
    i: "list_items demo_env demo_table ''pdfs'' (Some ''2'') = Inr items"
      "mset items =
         mset (map item_of (take (nat (parse_top demo_env (Some ''2''))) (query_entities demo_table ''pdfs'')))"
      "sorted_wrt (\<lambda>a b. stamp a \<ge> stamp b) items"
    by blast
  from i(1) have "map stamp items = [''2024-03-01Z'', ''2024-01-01Z'']"
    using st by (simp add: demo_list)
  moreover have "nat (parse_top demo_env (Some ''2'')) = 2"
    by (simp add: n)
  ultimately show ?thesis
    using h n i by (auto simp: list_all_iff)
qed

text \<open>
  The claim as stated fails on its own example: the table enumerates the three reports
  dated \<open>2024-01-01Z\<close>, \<open>2024-03-01Z\<close>, \<open>2024-02-01Z\<close> in this order, and with \<open>top=2\<close> the
  listing is \<open>2024-03-01Z\<close>, \<open>2024-01-01Z\<close>: the loop stops after the first two entities,
  before the sort, so the report of \<open>2024-02-01Z\<close> is never read.
\<close>

theorem list_items_counterexample:
  "list_items demo_env demo_table ''pdfs'' (Some ''2'') =
     Inr [[(''container'', JStr ''pdfs''), (''blob_name'', JStr ''b.pdf''),
           (''generated_at_utc'', JStr ''2024-03-01Z'')],
          [(''container'', JStr ''pdfs''), (''blob_name'', JStr ''a.pdf''),
           (''generated_at_utc'', JStr ''2024-01-01Z'')]] \<and>
   list_items demo_env demo_table ''pdfs'' (Some ''2'') \<noteq>
     Inr [[(''container'', JStr ''pdfs''), (''blob_name'', JStr ''b.pdf''),
           (''generated_at_utc'', JStr ''2024-03-01Z'')],
          [(''container'', JStr ''pdfs''), (''blob_name'', JStr ''c.pdf''),
           (''generated_at_utc'', JStr ''2024-02-01Z'')]]"
  by (simp add: demo_list)

subsection \<open>C9: storing a report and reading it back\<close>

lemma get_entity_upsert:
  "report e = Some r \<Longrightarrow>
   \<exists>x. get_entity (upsert_entity e tbl) (PartitionKey e) (RowKey e) = Inr x \<and> report x = Some r"
  by (induction tbl) (simp_all add: merge_entity_def)

text \<open>
  Claim C9, as the code has it. A Report whose \<open>container\<close> \<open>C\<close> and \<open>blob_name\<close> \<open>N\<close> are
  both non-empty strings is stored by \<open>store_report\<close> under the key \<open>(C, N)\<close>, whatever the
  table held before, and \<open>GET /reports/C/N\<close> then answers 200 with exactly the text that
  \<open>json.dumps\<close> made of the Report; so every decoder that inverts \<open>json.dumps\<close> on this
  Report gives the stored Report back.
\<close>

theorem store_then_get:
  assumes "map_of payload ''container'' = Some (JStr C)"
    and "map_of payload ''blob_name'' = Some (JStr N)"
    and "C \<noteq> []" and "N \<noteq> []"
  shows "\<exists>ack tbl'.
    store_report E payload tbl = (Inr ack, tbl') \<and>
    reports E tbl' (Some C) (Some N) top_param =
      Inr \<lparr>status_code = 200, body = dumps E (JObj payload)\<rparr> \<and>
    (loads (dumps E (JObj payload)) = JObj payload \<longrightarrow>
       map_sum id (\<lambda>resp. loads (body resp)) (reports E tbl' (Some C) (Some N) top_param) =
       Inr (JObj payload))"
proof -
  let ?e = "\<lparr>PartitionKey = C, RowKey = N,
             generated_at_utc = Some (py_or (py_get payload ''generated_at_utc'') (JStr (utcnow E))),
             report = Some (dumps E (JObj payload))\<rparr>"
  let ?ack = "JObj [(''partition_key'', JStr C), (''row_key'', JStr N), (''table'', JStr (table_name E))]"
  have s: "store_report E payload tbl = (Inr ?ack, upsert_entity ?e tbl)"
    using assms by (simp add: store_report_def py_get_def py_get_default_def)
  obtain x where x: "get_entity (upsert_entity ?e tbl) C N = Inr x" "report x = Some (dumps E (JObj payload))"
    using get_entity_upsert [of ?e "dumps E (JObj payload)" tbl] by auto
  have g: "reports E (upsert_entity ?e tbl) (Some C) (Some N) top_param =
      Inr \<lparr>status_code = 200, body = dumps E (JObj payload)\<rparr>"
    using assms(3,4) x by (simp add: reports_def)
  from s g show ?thesis
    by simp
qed

theorem store_then_get_witness:
  "map_of (identity (JStr ''pdfs'') (JStr ''b.pdf'')) ''container'' = Some (JStr ''pdfs'') \<and>
   map_of (identity (JStr ''pdfs'') (JStr ''b.pdf'')) ''blob_name'' = Some (JStr ''b.pdf'') \<and>
   ''pdfs'' \<noteq> [] \<and> ''b.pdf'' \<noteq> [] \<and>
   demo_loads (dumps demo_env (JObj (identity (JStr ''pdfs'') (JStr ''b.pdf'')))) =
     JObj (identity (JStr ''pdfs'') (JStr ''b.pdf'')) \<and>
   (\<exists>ack tbl'.
      store_report demo_env (identity (JStr ''pdfs'') (JStr ''b.pdf'')) demo_table = (Inr ack, tbl') \<and>
      reports demo_env tbl' (Some ''pdfs'') (Some ''b.pdf'') None =
        Inr \<lparr>status_code = 200, body = ''report:b.pdf''\<rparr> \<and>
      map_sum id (\<lambda>resp. demo_loads (body resp))
        (reports demo_env tbl' (Some ''pdfs'') (Some ''b.pdf'') None) =
        Inr (JObj (identity (JStr ''pdfs'') (JStr ''b.pdf''))))"
proof -
  have c: "map_of (identity (JStr ''pdfs'') (JStr ''b.pdf'')) ''container'' = Some (JStr ''pdfs'')"
    and b: "map_of (identity (JStr ''pdfs'') (JStr ''b.pdf'')) ''blob_name'' = Some (JStr ''b.pdf'')"
    by (simp_all add: identity_def)
  have d: "dumps demo_env (JObj (identity (JStr ''pdfs'') (JStr ''b.pdf''))) = ''report:b.pdf''"
    by (simp add: demo_env_def demo_dumps_def identity_def)
  have l: "demo_loads (dumps demo_env (JObj (identity (JStr ''pdfs'') (JStr ''b.pdf'')))) =
      JObj (identity (JStr ''pdfs'') (JStr ''b.pdf''))"
    by (simp add: d demo_loads_def)
  have ne: "''pdfs'' \<noteq> []" "''b.pdf'' \<noteq> []"
    by simp_all
  from store_then_get [OF c b ne, where E = demo_env and tbl = demo_table and top_param = None
      and loads = demo_loads]
  obtain ack tbl' where
    r: "store_report demo_env (identity (JStr ''pdfs'') (JStr ''b.pdf'')) demo_table = (Inr ack, tbl')"
      "reports demo_env tbl' (Some ''pdfs'') (Some ''b.pdf'') None =
         Inr \<lparr>status_code = 200,
              body = dumps demo_env (JObj (identity (JStr ''pdfs'') (JStr ''b.pdf'')))\<rparr>"
      "map_sum id (\<lambda>resp. demo_loads (body resp))
         (reports demo_env tbl' (Some ''pdfs'') (Some ''b.pdf'') None) =
         Inr (JObj (identity (JStr ''pdfs'') (JStr ''b.pdf'')))"
    using l by blast
  from r(2) have "reports demo_env tbl' (Some ''pdfs'') (Some ''b.pdf'') None =
      Inr \<lparr>status_code = 200, body = ''report:b.pdf''\<rparr>"
    by (simp only: d)
  with c b l r(1,3) show ?thesis
    by blast
qed

text \<open>
  The claim as stated fails for an empty container: the Report of \<open>("", "a.pdf")\<close> is
  stored, and the lookup for the same identity is refused with 400 by the guard
  \<open>if not container\<close>.
\<close>

theorem store_then_get_counterexample:
  "store_report demo_env (identity (JStr []) (JStr ''a.pdf'')) [] =
     (Inr (JObj [(''partition_key'', JStr []), (''row_key'', JStr ''a.pdf''),
                 (''table'', JStr ''PdfReports'')]),
      [\<lparr>PartitionKey = [], RowKey = ''a.pdf'',
        generated_at_utc = Some (JStr ''2024-04-01T00:00:00Z''),
        report = Some ''report:a.pdf''\<rparr>]) \<and>
   reports demo_env
     [\<lparr>PartitionKey = [], RowKey = ''a.pdf'',
       generated_at_utc = Some (JStr ''2024-04-01T00:00:00Z''),
       report = Some ''report:a.pdf''\<rparr>] (Some []) (Some ''a.pdf'') None =
     Inr \<lparr>status_code = 400, body = ''{..}''\<rparr>"
  by (simp add: store_report_def reports_def identity_def py_get_def py_get_default_def py_or_def
      demo_env_def demo_dumps_def)

end
